theory Spec2Isabelle
  imports Complex_Main "HOL-Library.AList" "HOL-Library.Log_Nat" "HOL-Library.Word"
begin

unbundle bit_operations_syntax

section \<open>Data model of banking\_system.py\<close>

text \<open>
  Conventions of the embedding.
  \<^item> A Python \<open>float\<close> (balance, amount, rate, limit) is an IEEE-754 binary64 value:
    \<open>NaN\<close>, an infinity, or a finite value given by the rational it denotes. Arithmetic
    rounds the exact result to the nearest double, ties to even, with gradual underflow
    and overflow to an infinity; comparisons with \<open>NaN\<close> are false. The two zeros are one
    value: the program never divides, tests a sign or copies one, so it cannot tell them
    apart. A float literal is the double nearest to the decimal written.
  \<^item> Python \<open>int\<close> (the failed-attempt counter) is \<open>int\<close>.
  \<^item> A Python \<open>str\<close> is a \<open>string\<close> whose characters are the code points below 256.
  \<^item> A Python \<open>dict\<close> is an association list in insertion order: \<open>d[k] = v\<close> is
    \<open>AList.update k v d\<close> (an existing key keeps its place, a new key goes last),
    \<open>del d[k]\<close> is \<open>AList.delete k d\<close>, \<open>k in d\<close> is \<open>map_of d k \<noteq> None\<close>.
  \<^item> The two classes \<open>SavingsAccount\<close> and \<open>CheckingAccount\<close> are one record with the
    fields of \<open>Account\<close> and a tag that carries the field of the subclass; a method that the
    subclasses override dispatches on the tag.
  \<^item> \<open>hashlib.sha256(password.encode()).digest()\<close> is library code: it is the parameter
    \<open>sha256\<close> of every function that hashes, a function from strings to 256-bit digests.
    \<open>hexdigest\<close> is written out.
  \<^item> What \<open>input\<close>, \<open>getpass.getpass\<close> and \<open>uuid.uuid4\<close> return are arguments of the
    operation that calls them; \<open>print\<close> is not modelled.
  \<^item> The contents of the two JSON files are fields of the ledger state; \<open>json.dump\<close>
    followed by \<open>json.load\<close> is taken to give back the dictionaries that were written.
\<close>

subsection \<open>Python floats\<close>

datatype pyfloat = Finite rat | PosInf | NegInf | NaN

definition pow2 :: "int \<Rightarrow> rat" where
  "pow2 k = (if 0 \<le> k then 2 ^ nat k else 1 / 2 ^ nat (- k))"

text \<open>The binary exponent of a positive rational: \<open>pow2 e \<le> a < pow2 (e + 1)\<close>.\<close>

definition floor_log2 :: "rat \<Rightarrow> int" where
  "floor_log2 a =
     (case quotient_of a of (p, q) \<Rightarrow>
        (let d = bitlen p - bitlen q in if pow2 d \<le> a then d else d - 1))"

definition round_half_even :: "rat \<Rightarrow> int" where
  "round_half_even x =
     (let f = \<lfloor>x\<rfloor>; d = x - of_int f
      in if d < 1 / 2 then f else if 1 / 2 < d then f + 1 else if even f then f else f + 1)"

text \<open>
  Rounding to binary64: 53 significant bits, the smallest exponent is \<open>-1022\<close> (below it
  the spacing stays \<open>pow2 (-1074)\<close>), and a result of magnitude \<open>2 ^ 1024\<close> is infinite.
\<close>

definition fround :: "rat \<Rightarrow> pyfloat" where
  "fround q =
     (if q = 0 then Finite 0
      else
        (let a = \<bar>q\<bar>;
             k = max (floor_log2 a) (- 1022) - 52;
             r = of_int (round_half_even (a / pow2 k)) * pow2 k
         in if 2 ^ 1024 \<le> r then (if 0 < q then PosInf else NegInf)
            else Finite (if 0 < q then r else - r)))"

definition is_double :: "rat \<Rightarrow> bool" where
  "is_double q = (fround q = Finite q)"

fun fneg :: "pyfloat \<Rightarrow> pyfloat" where
  "fneg (Finite x) = Finite (- x)"
| "fneg PosInf = NegInf"
| "fneg NegInf = PosInf"
| "fneg NaN = NaN"

fun fadd :: "pyfloat \<Rightarrow> pyfloat \<Rightarrow> pyfloat" where
  "fadd NaN y = NaN"
| "fadd x NaN = NaN"
| "fadd (Finite x) (Finite y) = fround (x + y)"
| "fadd PosInf NegInf = NaN"
| "fadd NegInf PosInf = NaN"
| "fadd PosInf y = PosInf"
| "fadd NegInf y = NegInf"
| "fadd (Finite x) y = y"

definition fsub :: "pyfloat \<Rightarrow> pyfloat \<Rightarrow> pyfloat" where
  "fsub x y = fadd x (fneg y)"

fun fmul :: "pyfloat \<Rightarrow> pyfloat \<Rightarrow> pyfloat" where
  "fmul NaN y = NaN"
| "fmul x NaN = NaN"
| "fmul (Finite x) (Finite y) = fround (x * y)"
| "fmul (Finite x) y = (if x = 0 then NaN else if 0 < x then y else fneg y)"
| "fmul x (Finite y) = (if y = 0 then NaN else if 0 < y then x else fneg x)"
| "fmul PosInf y = y"
| "fmul NegInf y = fneg y"

fun fle :: "pyfloat \<Rightarrow> pyfloat \<Rightarrow> bool" where
  "fle NaN y = False"
| "fle x NaN = False"
| "fle NegInf y = True"
| "fle x PosInf = True"
| "fle (Finite x) (Finite y) = (x \<le> y)"
| "fle PosInf y = False"
| "fle (Finite x) NegInf = False"

definition fge :: "pyfloat \<Rightarrow> pyfloat \<Rightarrow> bool" where
  "fge x y = fle y x"

definition flt :: "pyfloat \<Rightarrow> pyfloat \<Rightarrow> bool" where
  "flt x y = (fle x y \<and> \<not> fle y x)"

definition fgt :: "pyfloat \<Rightarrow> pyfloat \<Rightarrow> bool" where
  "fgt x y = flt y x"

definition fne :: "pyfloat \<Rightarrow> pyfloat \<Rightarrow> bool" where
  "fne x y = (x = NaN \<or> y = NaN \<or> x \<noteq> y)"

subsection \<open>Accounts and customers\<close>

datatype account_kind = SavingsAccount pyfloat | CheckingAccount pyfloat

record account =
  account_number :: string
  account_holder_id :: string
  balance :: pyfloat
  password_hash :: string
  failed_attempts :: int
  is_locked :: bool
  kind :: account_kind

record customer =
  customer_id :: string
  name :: string
  address :: string
  account_numbers :: "string list"

subsection \<open>Credential guard\<close>

definition hex_digit :: "nat \<Rightarrow> char" where
  "hex_digit n = ''0123456789abcdef'' ! n"

definition hexdigest :: "256 word \<Rightarrow> string" where
  "hexdigest d =
     map (\<lambda>i. hex_digit (unat (drop_bit (4 * (63 - i)) d AND 15))) [0..<64]"

definition hash_password :: "(string \<Rightarrow> 256 word) \<Rightarrow> string \<Rightarrow> string" where
  "hash_password sha256 password = hexdigest (sha256 password)"

definition Account_init ::
  "(string \<Rightarrow> 256 word) \<Rightarrow> string \<Rightarrow> string \<Rightarrow> pyfloat \<Rightarrow> string \<Rightarrow> account_kind \<Rightarrow> account" where
  "Account_init sha256 number holder initial_balance password k =
     \<lparr>account_number = number,
      account_holder_id = holder,
      balance = initial_balance,
      password_hash = (if password \<noteq> [] then hash_password sha256 password else []),
      failed_attempts = 0,
      is_locked = False,
      kind = k\<rparr>"

definition verify_password ::
  "(string \<Rightarrow> 256 word) \<Rightarrow> account \<Rightarrow> string \<Rightarrow> bool \<times> account" where
  "verify_password sha256 a password =
     (if is_locked a then (False, a)
      else if password_hash a = hash_password sha256 password
        then (True, a\<lparr>failed_attempts := 0\<rparr>)
      else
        (let a' = a\<lparr>failed_attempts := failed_attempts a + 1\<rparr>
         in (False, if failed_attempts a' \<ge> 3 then a'\<lparr>is_locked := True\<rparr> else a')))"

subsection \<open>Account variants\<close>

definition deposit :: "account \<Rightarrow> pyfloat \<Rightarrow> bool \<times> account" where
  "deposit a amount =
     (case kind a of
        SavingsAccount rate \<Rightarrow>
          if fgt amount (Finite 0)
          then (True, a\<lparr>balance := fadd (balance a) amount\<rparr>) else (False, a)
      | CheckingAccount limit \<Rightarrow>
          if fgt amount (Finite 0)
          then (True, a\<lparr>balance := fadd (balance a) amount\<rparr>) else (False, a))"

definition withdraw :: "account \<Rightarrow> pyfloat \<Rightarrow> bool \<times> account" where
  "withdraw a amount =
     (case kind a of
        SavingsAccount rate \<Rightarrow>
          if fgt amount (Finite 0) \<and> fge (balance a) amount
          then (True, a\<lparr>balance := fsub (balance a) amount\<rparr>) else (False, a)
      | CheckingAccount limit \<Rightarrow>
          if fgt amount (Finite 0) \<and> fge (fsub (balance a) amount) (fneg limit)
          then (True, a\<lparr>balance := fsub (balance a) amount\<rparr>) else (False, a))"

definition apply_interest :: "pyfloat \<Rightarrow> account \<Rightarrow> account" where
  "apply_interest rate a = a\<lparr>balance := fadd (balance a) (fmul (balance a) rate)\<rparr>"

definition account_floor :: "account \<Rightarrow> pyfloat" where
  "account_floor a =
     (case kind a of SavingsAccount rate \<Rightarrow> Finite 0 | CheckingAccount limit \<Rightarrow> fneg limit)"

subsection \<open>Customer\<close>

definition Customer_init :: "string \<Rightarrow> string \<Rightarrow> string \<Rightarrow> customer" where
  "Customer_init cid nm addr =
     \<lparr>customer_id = cid, name = nm, address = addr, account_numbers = []\<rparr>"

definition add_account_number :: "customer \<Rightarrow> string \<Rightarrow> customer" where
  "add_account_number c n =
     (if n \<in> set (account_numbers c) then c
      else c\<lparr>account_numbers := account_numbers c @ [n]\<rparr>)"

subsection \<open>Serialised records\<close>

text \<open>
  The dictionaries that \<open>to_dict\<close> builds and \<open>_load_data\<close> reads. A key that
  \<open>_load_data\<close> reads with \<open>.get\<close> and a default, or that only one subclass writes, may
  be absent: its field is an option.
\<close>

record customer_data =
  json_customer_id :: string
  json_name :: string
  json_address :: string
  json_account_numbers :: "string list"

record acc_data =
  json_account_number :: string
  json_account_holder_id :: string
  json_balance :: pyfloat
  json_password_hash :: "string option"
  json_failed_attempts :: "int option"
  json_is_locked :: "bool option"
  json_type :: string
  json_interest_rate :: "pyfloat option"
  json_overdraft_limit :: "pyfloat option"

definition Customer_to_dict :: "customer \<Rightarrow> customer_data" where
  "Customer_to_dict c =
     \<lparr>json_customer_id = customer_id c, json_name = name c, json_address = address c,
      json_account_numbers = account_numbers c\<rparr>"

definition to_dict :: "account \<Rightarrow> acc_data" where
  "to_dict a =
     (let data =
        \<lparr>json_account_number = account_number a,
         json_account_holder_id = account_holder_id a,
         json_balance = balance a,
         json_password_hash = Some (password_hash a),
         json_failed_attempts = Some (failed_attempts a),
         json_is_locked = Some (is_locked a),
         json_type = [], json_interest_rate = None, json_overdraft_limit = None\<rparr>
      in case kind a of
           SavingsAccount rate \<Rightarrow>
             data\<lparr>json_type := ''savings'', json_interest_rate := Some rate\<rparr>
         | CheckingAccount limit \<Rightarrow>
             data\<lparr>json_type := ''checking'', json_overdraft_limit := Some limit\<rparr>)"

subsection \<open>Ledger (Bank)\<close>

record bank =
  customers :: "(string \<times> customer) list"
  accounts :: "(string \<times> account) list"
  customer_file :: "(string \<times> customer_data) list option"
  account_file :: "(string \<times> acc_data) list option"

datatype error = KeyError

definition save_data :: "bank \<Rightarrow> bank" where
  "save_data s =
     s\<lparr>customer_file := Some (map (\<lambda>(cid, cust). (cid, Customer_to_dict cust)) (customers s)),
       account_file := Some (map (\<lambda>(anum, acc). (anum, to_dict acc)) (accounts s))\<rparr>"

definition load_customer ::
  "customer_data \<Rightarrow> (string \<times> customer) list \<Rightarrow> (string \<times> customer) list" where
  "load_customer d cs =
     (let c = fold (\<lambda>acc_num c. add_account_number c acc_num) (json_account_numbers d)
                (Customer_init (json_customer_id d) (json_name d) (json_address d))
      in AList.update (customer_id c) c cs)"

definition restore_account ::
  "acc_data \<Rightarrow> account \<Rightarrow> (string \<times> account) list \<Rightarrow> (string \<times> account) list" where
  "restore_account d a accs =
     (let a' = a\<lparr>password_hash := (case json_password_hash d of None \<Rightarrow> [] | Some h \<Rightarrow> h),
                 failed_attempts := (case json_failed_attempts d of None \<Rightarrow> 0 | Some n \<Rightarrow> n),
                 is_locked := (case json_is_locked d of None \<Rightarrow> False | Some b \<Rightarrow> b)\<rparr>
      in AList.update (account_number a') a' accs)"

fun load_accounts ::
  "(string \<Rightarrow> 256 word) \<Rightarrow> acc_data list \<Rightarrow> (string \<times> account) list
     \<Rightarrow> error + (string \<times> account) list" where
  "load_accounts sha256 [] accs = Inr accs"
| "load_accounts sha256 (d # ds) accs =
     (if json_type d = ''savings'' then
        (case json_interest_rate d of
           None \<Rightarrow> Inl KeyError
         | Some rate \<Rightarrow>
             load_accounts sha256 ds
               (restore_account d
                  (Account_init sha256 (json_account_number d) (json_account_holder_id d)
                     (json_balance d) [] (SavingsAccount rate)) accs))
      else if json_type d = ''checking'' then
        (case json_overdraft_limit d of
           None \<Rightarrow> Inl KeyError
         | Some limit \<Rightarrow>
             load_accounts sha256 ds
               (restore_account d
                  (Account_init sha256 (json_account_number d) (json_account_holder_id d)
                     (json_balance d) [] (CheckingAccount limit)) accs))
      else load_accounts sha256 ds accs)"

definition load_data :: "(string \<Rightarrow> 256 word) \<Rightarrow> bank \<Rightarrow> error + bank" where
  "load_data sha256 s =
     (let cs = (case customer_file s of
                  None \<Rightarrow> customers s
                | Some customers_data \<Rightarrow> fold load_customer (map snd customers_data) (customers s))
      in case account_file s of
           None \<Rightarrow> Inr (s\<lparr>customers := cs\<rparr>)
         | Some accounts_data \<Rightarrow>
             (case load_accounts sha256 (map snd accounts_data) (accounts s) of
                Inl e \<Rightarrow> Inl e
              | Inr accs \<Rightarrow> Inr (s\<lparr>customers := cs, accounts := accs\<rparr>)))"

definition Bank_init ::
  "(string \<Rightarrow> 256 word) \<Rightarrow> (string \<times> customer_data) list option
     \<Rightarrow> (string \<times> acc_data) list option \<Rightarrow> error + bank" where
  "Bank_init sha256 cf af =
     load_data sha256 \<lparr>customers = [], accounts = [], customer_file = cf, account_file = af\<rparr>"

text \<open>
  A method call on the account object that the ledger holds under a number: the object is
  mutated in place, so the ledger sees the new fields under the same number.
\<close>

definition on_account :: "bank \<Rightarrow> string \<Rightarrow> (account \<Rightarrow> bool \<times> account) \<Rightarrow> bool \<times> bank" where
  "on_account s anum method =
     (case map_of (accounts s) anum of
        None \<Rightarrow> (False, s)
      | Some a \<Rightarrow>
          (case method a of (r, a') \<Rightarrow> (r, s\<lparr>accounts := AList.update anum a' (accounts s)\<rparr>)))"

definition add_customer :: "bank \<Rightarrow> customer \<Rightarrow> bool \<times> bank" where
  "add_customer s c =
     (if map_of (customers s) (customer_id c) \<noteq> None then (False, s)
      else (True, save_data (s\<lparr>customers := AList.update (customer_id c) c (customers s)\<rparr>)))"

definition accounts_with_balance :: "bank \<Rightarrow> customer \<Rightarrow> (string \<times> pyfloat) list" where
  "accounts_with_balance s c =
     concat (map (\<lambda>acc_num.
        case map_of (accounts s) acc_num of
          None \<Rightarrow> []
        | Some a \<Rightarrow> if fne (balance a) (Finite 0) then [(acc_num, balance a)] else [])
      (account_numbers c))"

definition remove_customer :: "bank \<Rightarrow> string \<Rightarrow> string \<Rightarrow> string \<Rightarrow> bool \<times> bank" where
  "remove_customer s cid choice confirm =
     (case map_of (customers s) cid of
        None \<Rightarrow> (False, s)
      | Some c \<Rightarrow>
          if account_numbers c \<noteq> [] then
            if choice = ''1'' then (False, s)
            else if choice = ''2'' then
              if accounts_with_balance s c \<noteq> [] \<and> confirm \<noteq> ''CONFIRM'' then (False, s)
              else
                (let s' = s\<lparr>accounts := fold AList.delete (account_numbers c) (accounts s)\<rparr>
                 in (True, save_data (s'\<lparr>customers := AList.delete cid (customers s')\<rparr>)))
            else (False, s)
          else (True, save_data (s\<lparr>customers := AList.delete cid (customers s)\<rparr>)))"

definition lower_char :: "char \<Rightarrow> char" where
  "lower_char c =
     (let n = (of_char c :: nat)
      in if (65 \<le> n \<and> n \<le> 90) \<or> (192 \<le> n \<and> n \<le> 222 \<and> n \<noteq> 215)
         then char_of (n + 32) else c)"

definition lower :: "string \<Rightarrow> string" where
  "lower s = map lower_char s"

definition register_account :: "bank \<Rightarrow> string \<Rightarrow> customer \<Rightarrow> account \<Rightarrow> account option \<times> bank" where
  "register_account s cid c a =
     (let s1 = s\<lparr>accounts := AList.update (account_number a) a (accounts s)\<rparr>;
          s2 = s1\<lparr>customers :=
                 AList.update cid (add_account_number c (account_number a)) (customers s1)\<rparr>
      in (Some a, save_data s2))"

definition create_account ::
  "(string \<Rightarrow> 256 word) \<Rightarrow> bank \<Rightarrow> string \<Rightarrow> string \<Rightarrow> pyfloat \<Rightarrow> string
     \<Rightarrow> pyfloat option \<Rightarrow> pyfloat option \<Rightarrow> string \<Rightarrow> account option \<times> bank" where
  "create_account sha256 s cid account_type initial_balance password
       kw_interest_rate kw_overdraft_limit uuid4 =
     (case map_of (customers s) cid of
        None \<Rightarrow> (None, s)
      | Some c \<Rightarrow>
          (let acc_num = take 8 uuid4 in
           if lower account_type = ''savings'' then
             register_account s cid c
               (Account_init sha256 acc_num cid initial_balance password
                  (SavingsAccount (case kw_interest_rate of None \<Rightarrow> fround (1 / 100) | Some r \<Rightarrow> r)))
           else if lower account_type = ''checking'' then
             register_account s cid c
               (Account_init sha256 acc_num cid initial_balance password
                  (CheckingAccount (case kw_overdraft_limit of None \<Rightarrow> Finite 0 | Some l \<Rightarrow> l)))
           else (None, s)))"

definition Bank_deposit :: "bank \<Rightarrow> string \<Rightarrow> pyfloat \<Rightarrow> bool \<times> bank" where
  "Bank_deposit s anum amount =
     (if map_of (accounts s) anum = None then (False, s)
      else
        (case on_account s anum (\<lambda>a. deposit a amount) of
           (success, s1) \<Rightarrow> if success then (True, save_data s1) else (False, s1)))"

definition Bank_withdraw ::
  "(string \<Rightarrow> 256 word) \<Rightarrow> bank \<Rightarrow> string \<Rightarrow> pyfloat \<Rightarrow> string \<Rightarrow> bool \<times> bank" where
  "Bank_withdraw sha256 s anum amount password =
     (case map_of (accounts s) anum of
        None \<Rightarrow> (False, s)
      | Some a \<Rightarrow>
          if is_locked a then (False, s)
          else
            (case on_account s anum (\<lambda>a. verify_password sha256 a password) of
               (verified, s1) \<Rightarrow>
                 if \<not> verified then (False, save_data s1)
                 else
                   (case on_account s1 anum (\<lambda>a. withdraw a amount) of
                      (success, s2) \<Rightarrow> if success then (True, save_data s2) else (False, s2))))"

text \<open>The seven \<open>return\<close> statements of \<open>transfer_funds\<close>, in source order.\<close>

datatype transfer_exit =
  UnknownAccount | InvalidAmount | SourceLocked | VerificationFailed
  | Transferred | RolledBack | WithdrawFailed

definition returned :: "transfer_exit \<Rightarrow> bool" where
  "returned e = (e = Transferred)"

definition transfer_funds ::
  "(string \<Rightarrow> 256 word) \<Rightarrow> bank \<Rightarrow> string \<Rightarrow> string \<Rightarrow> pyfloat \<Rightarrow> string
     \<Rightarrow> transfer_exit \<times> bank" where
  "transfer_funds sha256 s from_acc_num to_acc_num amount password =
     (case map_of (accounts s) from_acc_num of
        None \<Rightarrow> (UnknownAccount, s)
      | Some from_acc \<Rightarrow>
          if map_of (accounts s) to_acc_num = None then (UnknownAccount, s)
          else if fle amount (Finite 0) then (InvalidAmount, s)
          else if is_locked from_acc then (SourceLocked, s)
          else
            (case on_account s from_acc_num (\<lambda>a. verify_password sha256 a password) of
               (verified, s1) \<Rightarrow>
                 if \<not> verified then (VerificationFailed, save_data s1)
                 else
                   (case on_account s1 from_acc_num (\<lambda>a. withdraw a amount) of
                      (withdrawn, s2) \<Rightarrow>
                        if withdrawn then
                          (case on_account s2 to_acc_num (\<lambda>a. deposit a amount) of
                             (deposited, s3) \<Rightarrow>
                               if deposited then (Transferred, save_data s3)
                               else (RolledBack,
                                     snd (on_account s3 from_acc_num (\<lambda>a. deposit a amount))))
                        else (WithdrawFailed, s2))))"

definition apply_all_interest :: "bank \<Rightarrow> bank" where
  "apply_all_interest s =
     save_data (s\<lparr>accounts :=
       map (\<lambda>(anum, a).
              (anum, case kind a of
                       SavingsAccount rate \<Rightarrow> apply_interest rate a
                     | CheckingAccount limit \<Rightarrow> a))
           (accounts s)\<rparr>)"

subsection \<open>Runs of ledger operations\<close>

datatype operation =
  AddCustomer customer
  | RemoveCustomer string string string
  | CreateAccount string string pyfloat string "pyfloat option" "pyfloat option" string
  | Deposit string pyfloat
  | Withdraw string pyfloat string
  | TransferFunds string string pyfloat string
  | ApplyAllInterest

fun exec :: "(string \<Rightarrow> 256 word) \<Rightarrow> operation \<Rightarrow> bank \<Rightarrow> bank" where
  "exec sha256 (AddCustomer c) s = snd (add_customer s c)"
| "exec sha256 (RemoveCustomer cid choice confirm) s = snd (remove_customer s cid choice confirm)"
| "exec sha256 (CreateAccount cid ty ib pw kr kl uuid4) s =
     snd (create_account sha256 s cid ty ib pw kr kl uuid4)"
| "exec sha256 (Deposit anum amount) s = snd (Bank_deposit s anum amount)"
| "exec sha256 (Withdraw anum amount pw) s = snd (Bank_withdraw sha256 s anum amount pw)"
| "exec sha256 (TransferFunds f t amount pw) s = snd (transfer_funds sha256 s f t amount pw)"
| "exec sha256 ApplyAllInterest s = apply_all_interest s"

definition empty_bank :: bank where
  "empty_bank = \<lparr>customers = [], accounts = [], customer_file = None, account_file = None\<rparr>"

text \<open>The exact sum of the finite balances of a ledger.\<close>

definition ledger_total :: "bank \<Rightarrow> rat" where
  "ledger_total s =
     sum_list (map (\<lambda>(anum, a). case balance a of Finite x \<Rightarrow> x | _ \<Rightarrow> 0) (accounts s))"

subsection \<open>Concrete inputs\<close>

text \<open>
  The theorems below hold for every digest function. Where a statement is evaluated at a
  concrete input, \<open>demo_sha256\<close> stands in for SHA-256; it separates passwords of
  different lengths.
\<close>

definition demo_sha256 :: "string \<Rightarrow> 256 word" where
  "demo_sha256 p = of_nat (length p)"

definition demo_savings :: account where
  "demo_savings =
     Account_init demo_sha256 ''1a2b3c4d'' ''c1'' (Finite 100) ''pw''
       (SavingsAccount (fround (1 / 100)))"

definition demo_checking :: account where
  "demo_checking =
     Account_init demo_sha256 ''5e6f7a8b'' ''c1'' (Finite 50) [] (CheckingAccount (Finite 20))"

definition demo_customer :: customer where
  "demo_customer = Customer_init ''c1'' ''Ann'' ''1 Main St''"

definition demo_bank :: bank where
  "demo_bank =
     fold (exec demo_sha256)
       [AddCustomer demo_customer,
        CreateAccount ''c1'' ''savings'' (Finite 100) ''pw'' None None
          ''1a2b3c4d-0000-4000-8000-000000000000'',
        CreateAccount ''c1'' ''Checking'' (Finite 50) [] None (Some (Finite 20))
          ''5e6f7a8b-0000-4000-8000-000000000000'']
       empty_bank"

definition rich_bank :: bank where
  "rich_bank =
     fold (exec demo_sha256)
       [AddCustomer demo_customer,
        CreateAccount ''c1'' ''savings'' (Finite 10000000000000000) ''pw'' None None
          ''1a2b3c4d-0000-4000-8000-000000000000'',
        CreateAccount ''c1'' ''savings'' (Finite 0) ''pw'' None None
          ''5e6f7a8b-0000-4000-8000-000000000000'']
       empty_bank"

section \<open>Facts about floats\<close>

lemma floor_rat_divide_numeral: "\<lfloor>numeral a / numeral b :: rat\<rfloor> = numeral a div numeral b"
  by (metis floor_divide_of_int_eq of_int_numeral)

lemmas fround_eval = fround_def floor_log2_def quotient_of_int bitlen_def compute_floorlog
  pow2_def round_half_even_def Let_def floor_rat_divide_numeral

lemma pow2_pos: "0 < pow2 k"
  by (simp add: pow2_def)

lemma round_half_even_nonneg: "0 \<le> x \<Longrightarrow> 0 \<le> round_half_even x"
  by (auto simp: round_half_even_def Let_def)

lemma fround_nonneg: "0 \<le> q \<Longrightarrow> fle (Finite 0) (fround q)"
  using round_half_even_nonneg [of "\<bar>q\<bar> / pow2 (max (floor_log2 \<bar>q\<bar>) (- 1022) - 52)"]
    pow2_pos [of "max (floor_log2 \<bar>q\<bar>) (- 1022) - 52"]
  by (auto simp: fround_def Let_def)

lemma fle_refl_iff: "fle x x \<longleftrightarrow> x \<noteq> NaN"
  by (cases x) simp_all

lemma fge_not_flt: "fge x y \<Longrightarrow> \<not> flt x y"
  by (simp add: fge_def flt_def)

lemma fsub_Finite: "fsub (Finite x) (Finite m) = fround (x - m)"
  by (simp add: fsub_def)

lemma savings_withdraw_floor:
  assumes "fgt amount (Finite 0)" "fge b amount" "\<not> (b = PosInf \<and> amount = PosInf)"
  shows "fge (fsub b amount) (Finite 0)"
proof (cases b)
  case (Finite x)
  show ?thesis
  proof (cases amount)
    case (Finite m)
    with \<open>b = Finite x\<close> assms have "0 \<le> x - m" by (simp add: fge_def)
    then show ?thesis
      using fround_nonneg [of "x - m"] \<open>b = Finite x\<close> Finite by (simp add: fge_def fsub_def)
  qed (use assms Finite in \<open>simp_all add: fge_def fgt_def flt_def\<close>)
next
  case PosInf
  with assms show ?thesis by (cases amount) (simp_all add: fge_def fgt_def flt_def fsub_def)
next
  case NegInf
  with assms show ?thesis by (cases amount) (simp_all add: fge_def fgt_def flt_def fsub_def)
next
  case NaN
  with assms show ?thesis by (cases amount) (simp_all add: fge_def fgt_def flt_def fsub_def)
qed

lemma savings_withdraw_not_below:
  assumes "fgt amount (Finite 0)" "fge b amount"
  shows "\<not> flt (fsub b amount) (Finite 0)"
proof (cases "b = PosInf \<and> amount = PosInf")
  case True
  then show ?thesis by (simp add: fsub_def flt_def)
next
  case False
  with assms show ?thesis by (simp add: savings_withdraw_floor fge_not_flt)
qed

section \<open>Withdrawal rules\<close>

lemma withdraw_success_iff:
  "fst (withdraw a amount) \<longleftrightarrow>
     fgt amount (Finite 0) \<and>
     (case kind a of
        SavingsAccount rate \<Rightarrow> fge (balance a) amount
      | CheckingAccount limit \<Rightarrow> fge (fsub (balance a) amount) (fneg limit))"
  by (cases "kind a") (simp_all add: withdraw_def)

lemma withdraw_success_state:
  "fst (withdraw a amount) \<Longrightarrow> snd (withdraw a amount) = a\<lparr>balance := fsub (balance a) amount\<rparr>"
  by (cases "kind a") (simp_all add: withdraw_def split: if_splits)

lemma withdraw_failure_state: "\<not> fst (withdraw a amount) \<Longrightarrow> snd (withdraw a amount) = a"
  by (cases "kind a") (auto simp: withdraw_def)

lemma withdraw_floor:
  assumes "fst (withdraw a amount)" "\<not> (balance a = PosInf \<and> amount = PosInf)"
  shows "fge (balance (snd (withdraw a amount))) (account_floor a)"
proof (cases "kind a")
  case (SavingsAccount rate)
  with assms show ?thesis
    using savings_withdraw_floor [of amount "balance a"]
    by (simp add: withdraw_def account_floor_def split: if_splits)
next
  case (CheckingAccount limit)
  with assms show ?thesis
    by (simp add: withdraw_def account_floor_def split: if_splits)
qed

lemma withdraw_not_below:
  assumes "fst (withdraw a amount)"
  shows "\<not> flt (balance (snd (withdraw a amount))) (account_floor a)"
proof (cases "kind a")
  case (SavingsAccount rate)
  with assms show ?thesis
    using savings_withdraw_not_below [of amount "balance a"]
    by (simp add: withdraw_def account_floor_def split: if_splits)
next
  case (CheckingAccount limit)
  with assms show ?thesis
    by (simp add: withdraw_def account_floor_def fge_not_flt split: if_splits)
qed

text \<open>
  C1, as the code has it. A savings account's \<open>withdraw\<close> succeeds exactly when
  \<open>amount > 0\<close> and \<open>balance \<ge> amount\<close>; a checking account's exactly when
  \<open>amount > 0\<close> and the double \<open>balance - amount\<close> is at least \<open>- overdraft_limit\<close>.
  On success only the balance changes: it becomes the double nearest to
  \<open>balance - amount\<close>, which is \<open>balance - amount\<close> itself when that is a double, and it is
  never below the account's floor; it is at or above the floor unless an infinite amount
  was withdrawn from an infinite balance, which leaves \<open>NaN\<close>. On failure the account is
  unchanged.
\<close>

theorem withdraw_rule:
  "(kind a = SavingsAccount rate \<longrightarrow>
      (fst (withdraw a amount) \<longleftrightarrow> fgt amount (Finite 0) \<and> fge (balance a) amount))
   \<and> (kind a = CheckingAccount limit \<longrightarrow>
      (fst (withdraw a amount) \<longleftrightarrow>
         fgt amount (Finite 0) \<and> fge (fsub (balance a) amount) (fneg limit)))
   \<and> (fst (withdraw a amount) \<longrightarrow>
        snd (withdraw a amount) = a\<lparr>balance := fsub (balance a) amount\<rparr>
        \<and> \<not> flt (balance (snd (withdraw a amount))) (account_floor a))
   \<and> (fst (withdraw a amount) \<and> balance a = Finite x \<and> amount = Finite m \<and> is_double (x - m) \<longrightarrow>
        balance (snd (withdraw a amount)) = Finite (x - m))
   \<and> (fst (withdraw a amount) \<and> \<not> (balance a = PosInf \<and> amount = PosInf) \<longrightarrow>
        fge (balance (snd (withdraw a amount))) (account_floor a))
   \<and> (\<not> fst (withdraw a amount) \<longrightarrow> snd (withdraw a amount) = a)"
proof -
  have exact: "fst (withdraw a amount) \<and> balance a = Finite x \<and> amount = Finite m
      \<and> is_double (x - m) \<longrightarrow> balance (snd (withdraw a amount)) = Finite (x - m)"
    by (auto simp: withdraw_success_state is_double_def fsub_def)
  show ?thesis
    using exact withdraw_success_iff [of a amount] withdraw_floor [of a amount]
      withdraw_not_below [of a amount]
    by (simp add: withdraw_success_state withdraw_failure_state)
qed

lemma fround_100_30: "fround (100 - 30) = Finite 70"
  by (simp add: fround_eval)

lemma fround_1e16_minus_1: "fround (10000000000000000 - 1) = Finite 10000000000000000"
  by (simp add: fround_eval)

lemma fround_50_60: "fround (50 - 60) = Finite (- 10)"
  by (simp add: fround_eval)

lemma fround_m10_20: "fround (- 10 - 20) = Finite (- 30)"
  by (simp add: fround_eval)

text \<open>
  C1 as stated fails: a successful withdrawal need not lower the balance by the amount.
  Withdrawing \<open>1.0\<close> from a savings balance of \<open>1e16\<close> succeeds and leaves \<open>1e16\<close>.
\<close>

theorem withdraw_rule_counterexample:
  "fst (withdraw (demo_savings\<lparr>balance := Finite 10000000000000000\<rparr>) (Finite 1))
   \<and> balance (snd (withdraw (demo_savings\<lparr>balance := Finite 10000000000000000\<rparr>) (Finite 1)))
       = Finite 10000000000000000"
  using fround_1e16_minus_1
  by (simp add: withdraw_def demo_savings_def Account_init_def fgt_def fge_def flt_def fsub_def)

lemma fround_70: "fround 70 = Finite 70"
  by (simp add: fround_eval)
lemma fround_m10: "fround (- 10) = Finite (- 10)"
  by (simp add: fround_eval)

theorem withdraw_rule_witness:
  "fst (withdraw demo_savings (Finite 30))
   \<and> balance (snd (withdraw demo_savings (Finite 30))) = Finite 70
   \<and> \<not> fst (withdraw demo_savings (Finite 130))
   \<and> snd (withdraw demo_savings (Finite 130)) = demo_savings
   \<and> fst (withdraw demo_checking (Finite 60))
   \<and> balance (snd (withdraw demo_checking (Finite 60))) = Finite (- 10)
   \<and> fge (balance (snd (withdraw demo_checking (Finite 60)))) (account_floor demo_checking)
   \<and> \<not> fst (withdraw (demo_checking\<lparr>balance := Finite (- 10)\<rparr>) (Finite 20))"
proof -
  have s: "kind demo_savings = SavingsAccount (fround (1 / 100))" "balance demo_savings = Finite 100"
    by (simp_all add: demo_savings_def Account_init_def)
  have c: "kind demo_checking = CheckingAccount (Finite 20)" "balance demo_checking = Finite 50"
    by (simp_all add: demo_checking_def Account_init_def)
  have w1: "fst (withdraw demo_savings (Finite 30))
      \<and> balance (snd (withdraw demo_savings (Finite 30))) = Finite 70"
    using withdraw_rule [of demo_savings "fround (1 / 100)" "Finite 30" "Finite 0" 100 30] fround_70
    by (simp add: s fgt_def fge_def flt_def fsub_def is_double_def)
  have w2: "\<not> fst (withdraw demo_savings (Finite 130))
      \<and> snd (withdraw demo_savings (Finite 130)) = demo_savings"
    using withdraw_rule [of demo_savings "fround (1 / 100)" "Finite 130" "Finite 0" 100 130]
    by (simp add: s fgt_def fge_def flt_def)
  have w3: "fst (withdraw demo_checking (Finite 60))
      \<and> balance (snd (withdraw demo_checking (Finite 60))) = Finite (- 10)
      \<and> fge (balance (snd (withdraw demo_checking (Finite 60)))) (account_floor demo_checking)"
    using withdraw_rule [of demo_checking "Finite 0" "Finite 60" "Finite 20" 50 60]
      fround_50_60 fround_m10
    by (simp add: c fgt_def fge_def flt_def fsub_def is_double_def account_floor_def)
  have w4: "\<not> fst (withdraw (demo_checking\<lparr>balance := Finite (- 10)\<rparr>) (Finite 20))"
    using withdraw_rule [of "demo_checking\<lparr>balance := Finite (- 10)\<rparr>" "Finite 0"
        "Finite 20" "Finite 20" "- 10" 20] fround_m10_20
    by (simp add: c fgt_def fge_def flt_def fsub_def)
  from w1 w2 w3 w4 show ?thesis by blast
qed

section \<open>Credential guard\<close>



lemma demo_hash_neq: "hash_password demo_sha256 ''pw'' \<noteq> hash_password demo_sha256 ''guess''"
  by (simp add: hash_password_def demo_sha256_def hexdigest_def hex_digit_def upt_rec)

lemma verify_locked: "is_locked a \<Longrightarrow> verify_password sha256 a p = (False, a)"
  by (simp add: verify_password_def)

lemma verify_wrong:
  "\<not> is_locked a \<Longrightarrow> password_hash a \<noteq> hash_password sha256 p \<Longrightarrow>
   verify_password sha256 a p =
     (False, a\<lparr>failed_attempts := failed_attempts a + 1,
               is_locked := (failed_attempts a + 1 \<ge> 3)\<rparr>)"
  by (simp add: verify_password_def Let_def)

lemma verify_correct:
  "\<not> is_locked a \<Longrightarrow> password_hash a = hash_password sha256 p \<Longrightarrow>
   verify_password sha256 a p = (True, a\<lparr>failed_attempts := 0\<rparr>)"
  by (simp add: verify_password_def)

lemma verify_keeps_lock: "is_locked a \<Longrightarrow> is_locked (snd (verify_password sha256 a p))"
  by (simp add: verify_password_def Let_def)

lemma verify_keeps_hash: "password_hash (snd (verify_password sha256 a p)) = password_hash a"
  by (simp add: verify_password_def Let_def)

lemma deposit_keeps_lock: "is_locked (snd (deposit a amount)) = is_locked a"
  by (cases "kind a") (simp_all add: deposit_def)

lemma withdraw_keeps_lock: "is_locked (snd (withdraw a amount)) = is_locked a"
  by (cases "kind a") (simp_all add: withdraw_def)

lemma three_wrong_lock:
  assumes "\<not> is_locked a" "0 \<le> failed_attempts a"
    and "password_hash a \<noteq> hash_password sha256 p1"
    and "password_hash a \<noteq> hash_password sha256 p2"
    and "password_hash a \<noteq> hash_password sha256 p3"
  shows "is_locked (snd (verify_password sha256
           (snd (verify_password sha256 (snd (verify_password sha256 a p1)) p2)) p3))"
  using assms by (simp add: verify_password_def Let_def)



section \<open>Ledger operations on stored accounts\<close>

lemma on_account_found:
  "map_of (accounts s) k = Some a \<Longrightarrow>
   on_account s k m = (fst (m a), s\<lparr>accounts := AList.update k (snd (m a)) (accounts s)\<rparr>)"
  by (simp add: on_account_def split: prod.splits)

lemma on_account_lookup:
  "map_of (accounts s) k \<noteq> None \<Longrightarrow>
   map_of (accounts (snd (on_account s k' m))) k \<noteq> None"
  by (auto simp: on_account_def update_conv' split: option.splits prod.splits)

lemma deposit_success_iff: "fst (deposit a amount) \<longleftrightarrow> fgt amount (Finite 0)"
  by (cases "kind a") (simp_all add: deposit_def)

lemma deposit_success_state:
  "fst (deposit a amount) \<Longrightarrow> snd (deposit a amount) = a\<lparr>balance := fadd (balance a) amount\<rparr>"
  by (cases "kind a") (simp_all add: deposit_def split: if_splits)

lemma deposit_failure_state: "\<not> fst (deposit a amount) \<Longrightarrow> snd (deposit a amount) = a"
  by (cases "kind a") (auto simp: deposit_def)

lemma withdraw_imp_deposit: "fst (withdraw a amount) \<Longrightarrow> fst (deposit b amount)"
  by (simp add: withdraw_success_iff deposit_success_iff)

lemma fle_zero_not_fgt: "fle amount (Finite 0) \<Longrightarrow> \<not> fgt amount (Finite 0)"
  by (simp add: fgt_def flt_def)

lemma transfer_not_rolled_back:
  "fst (transfer_funds sha256 s from_acc_num to_acc_num amount password) \<noteq> RolledBack"
proof (cases "map_of (accounts s) from_acc_num")
  case None
  then show ?thesis by (simp add: transfer_funds_def)
next
  case (Some from_acc)
  show ?thesis
  proof (cases "map_of (accounts s) to_acc_num = None \<or> fle amount (Finite 0) \<or> is_locked from_acc")
    case True
    with Some show ?thesis by (auto simp: transfer_funds_def)
  next
    case False
    obtain v s1 where s1: "on_account s from_acc_num (\<lambda>a. verify_password sha256 a password) = (v, s1)"
      by (cases "on_account s from_acc_num (\<lambda>a. verify_password sha256 a password)")
    obtain w s2 where s2: "on_account s1 from_acc_num (\<lambda>a. withdraw a amount) = (w, s2)"
      by (cases "on_account s1 from_acc_num (\<lambda>a. withdraw a amount)")
    obtain d s3 where s3: "on_account s2 to_acc_num (\<lambda>a. deposit a amount) = (d, s3)"
      by (cases "on_account s2 to_acc_num (\<lambda>a. deposit a amount)")
    have known1: "map_of (accounts s1) to_acc_num \<noteq> None"
      using False on_account_lookup [of s to_acc_num from_acc_num] s1 by (metis snd_conv)
    have known2: "map_of (accounts s2) to_acc_num \<noteq> None"
      using known1 on_account_lookup [of s1 to_acc_num from_acc_num] s2 by (metis snd_conv)
    have "d" if "w"
    proof -
      from that s2 obtain a1 where a1: "map_of (accounts s1) from_acc_num = Some a1"
        and "fst (withdraw a1 amount)"
        by (auto simp: on_account_def split: option.splits prod.splits)
      from known2 obtain b where "map_of (accounts s2) to_acc_num = Some b" by auto
      then have "d = fst (deposit b amount)"
        using s3 by (simp add: on_account_found)
      with withdraw_imp_deposit [OF \<open>fst (withdraw a1 amount)\<close>] show ?thesis by simp
    qed
    with Some False s1 s2 s3 show ?thesis
      by (auto simp: transfer_funds_def)
  qed
qed

text \<open>
  C10. The rollback branch of \<open>transfer_funds\<close> is never taken. The guard
  \<open>amount \<le> 0\<close> returns before any verification and leaves the ledger as it was;
  \<open>deposit\<close> of either variant succeeds exactly when \<open>amount > 0\<close>; a successful
  \<open>withdraw\<close> implies \<open>amount > 0\<close>, so the destination deposit that follows it succeeds.
\<close>

theorem rollback_unreachable:
  "fst (transfer_funds sha256 s from_acc_num to_acc_num amount password) \<noteq> RolledBack
   \<and> (map_of (accounts s) from_acc_num \<noteq> None \<and> map_of (accounts s) to_acc_num \<noteq> None
        \<and> fle amount (Finite 0) \<longrightarrow>
        transfer_funds sha256 s from_acc_num to_acc_num amount password = (InvalidAmount, s))
   \<and> (fst (deposit a amount) \<longleftrightarrow> fgt amount (Finite 0))
   \<and> (fst (withdraw a amount) \<longrightarrow> fst (deposit b amount))"
  using transfer_not_rolled_back [of sha256 s from_acc_num to_acc_num amount password]
    withdraw_imp_deposit [of a amount b]
  by (auto simp: deposit_success_iff transfer_funds_def)

lemma lower_savings: "lower ''savings'' = ''savings''"
  by (simp add: lower_def lower_char_def)

lemma lower_Checking: "lower ''Checking'' = ''checking''"
  by (simp add: lower_def lower_char_def char_of_def bit_0)

lemma demo_bank_customers:
  "customers demo_bank =
     [(''c1'', demo_customer\<lparr>account_numbers := [''1a2b3c4d'', ''5e6f7a8b'']\<rparr>)]"
  by (simp add: demo_bank_def empty_bank_def add_customer_def create_account_def
      register_account_def save_data_def demo_customer_def Customer_init_def
      add_account_number_def Account_init_def lower_savings lower_Checking Let_def)

lemma demo_bank_accounts:
  "accounts demo_bank = [(''1a2b3c4d'', demo_savings), (''5e6f7a8b'', demo_checking)]"
  by (simp add: demo_bank_def empty_bank_def add_customer_def create_account_def
      register_account_def save_data_def demo_customer_def Customer_init_def
      add_account_number_def Account_init_def lower_savings lower_Checking Let_def
      demo_savings_def demo_checking_def)

lemma demo_bank_saved: "save_data demo_bank = demo_bank"
  by (simp add: demo_bank_def empty_bank_def add_customer_def create_account_def
      register_account_def save_data_def demo_customer_def Customer_init_def
      add_account_number_def Account_init_def lower_savings lower_Checking Let_def)

theorem rollback_unreachable_witness:
  "transfer_funds demo_sha256 demo_bank ''1a2b3c4d'' ''5e6f7a8b'' (Finite 0) ''pw''
     = (InvalidAmount, demo_bank)
   \<and> fst (withdraw demo_savings (Finite 30))
   \<and> fst (deposit demo_checking (Finite 30))
   \<and> \<not> fst (deposit demo_checking (Finite (- 5)))"
proof -
  have known: "map_of (accounts demo_bank) ''1a2b3c4d'' \<noteq> None"
    "map_of (accounts demo_bank) ''5e6f7a8b'' \<noteq> None"
    by (simp_all add: demo_bank_accounts)
  have w: "fst (withdraw demo_savings (Finite 30))"
    by (simp add: withdraw_def demo_savings_def Account_init_def fgt_def fge_def flt_def)
  have t: "transfer_funds demo_sha256 demo_bank ''1a2b3c4d'' ''5e6f7a8b'' (Finite 0) ''pw''
     = (InvalidAmount, demo_bank)"
    using rollback_unreachable
      [of demo_sha256 demo_bank "''1a2b3c4d''" "''5e6f7a8b''" "Finite 0" "''pw''"] known
    by simp
  have d: "fst (deposit demo_checking (Finite 30))"
    using rollback_unreachable [of _ _ _ _ "Finite 30" _ demo_savings demo_checking] w
    by blast
  have n: "\<not> fst (deposit demo_checking (Finite (- 5)))"
    using rollback_unreachable [of _ _ _ _ "Finite (- 5)" _ demo_checking]
    by (simp add: fgt_def flt_def)
  from t w d n show ?thesis by blast
qed

section \<open>Transfers\<close>

lemma transfer_success:
  assumes "from_acc_num \<noteq> to_acc_num"
    and "map_of (accounts s) from_acc_num = Some fa"
    and "map_of (accounts s) to_acc_num = Some ta"
    and "transfer_funds sha256 s from_acc_num to_acc_num amount password = (Transferred, s')"
  shows "s' = save_data (s\<lparr>accounts :=
           AList.update to_acc_num (ta\<lparr>balance := fadd (balance ta) amount\<rparr>)
             (AList.update from_acc_num
                (fa\<lparr>failed_attempts := 0, balance := fsub (balance fa) amount\<rparr>)
                (accounts s))\<rparr>)"
    and "fgt amount (Finite 0)" and "\<not> is_locked fa"
    and "password_hash fa = hash_password sha256 password"
    and "fst (withdraw (fa\<lparr>failed_attempts := 0\<rparr>) amount)"
proof -
  from assms have g: "\<not> fle amount (Finite 0)" "\<not> is_locked fa"
    by (auto simp: transfer_funds_def split: if_splits)
  from assms g have v: "password_hash fa = hash_password sha256 password"
    by (auto simp: transfer_funds_def on_account_found verify_password_def Let_def
        split: if_splits)
  let ?a1 = "fa\<lparr>failed_attempts := 0\<rparr>"
  from assms g v have w: "fst (withdraw ?a1 amount)"
    by (auto simp: transfer_funds_def on_account_found verify_password_def update_conv'
        split: if_splits prod.splits)
  then have pos: "fgt amount (Finite 0)" by (simp add: withdraw_success_iff)
  from assms g v w pos show "s' = save_data (s\<lparr>accounts :=
           AList.update to_acc_num (ta\<lparr>balance := fadd (balance ta) amount\<rparr>)
             (AList.update from_acc_num
                (fa\<lparr>failed_attempts := 0, balance := fsub (balance fa) amount\<rparr>)
                (accounts s))\<rparr>)"
    by (auto simp: transfer_funds_def on_account_found verify_password_def update_conv'
        withdraw_success_state deposit_success_state deposit_success_iff
        split: if_splits prod.splits)
  from g v w pos show "fgt amount (Finite 0)" "\<not> is_locked fa"
    "password_hash fa = hash_password sha256 password" "fst (withdraw ?a1 amount)"
    by simp_all
qed

lemma sum_list_update:
  fixes f :: "'k \<times> 'v \<Rightarrow> rat"
  assumes "distinct (map fst al)" "map_of al k = Some v"
  shows "sum_list (map f (AList.update k v' al)) = sum_list (map f al) - f (k, v) + f (k, v')"
  using assms
proof (induction al)
  case Nil
  then show ?case by simp
next
  case (Cons p al)
  then show ?case by (cases p) (auto split: if_splits)
qed

lemma ledger_total_update:
  assumes "distinct (map fst (accounts s))" "map_of (accounts s) k = Some a"
    and "balance a = Finite x" "balance a' = Finite x'"
  shows "ledger_total (s\<lparr>accounts := AList.update k a' (accounts s)\<rparr>)
           = ledger_total s - x + x'"
  using sum_list_update [OF assms(1,2), of "\<lambda>(anum, a). case balance a of Finite x \<Rightarrow> x | _ \<Rightarrow> 0" a']
    assms(3,4)
  by (simp add: ledger_total_def)

lemma ledger_total_save: "ledger_total (save_data s) = ledger_total s"
  by (simp add: ledger_total_def save_data_def)

text \<open>
  C3, as the code has it. A successful transfer between two distinct known accounts sets
  the source balance to the double nearest to \<open>balance - amount\<close> and the destination
  balance to the double nearest to \<open>balance + amount\<close>, resets the source's failed
  attempts, leaves every other account as it was and saves the ledger. When both results
  are exact, the source decreases and the destination increases by exactly the amount and
  the sum of the balances is preserved. No transfer ends in the rollback branch.
\<close>

theorem transfer_effect:
  assumes "from_acc_num \<noteq> to_acc_num"
    and "map_of (accounts s) from_acc_num = Some fa"
    and "map_of (accounts s) to_acc_num = Some ta"
    and "transfer_funds sha256 s from_acc_num to_acc_num amount password = (Transferred, s')"
  shows "map_of (accounts s') from_acc_num
           = Some (fa\<lparr>failed_attempts := 0, balance := fsub (balance fa) amount\<rparr>)
     \<and> map_of (accounts s') to_acc_num = Some (ta\<lparr>balance := fadd (balance ta) amount\<rparr>)
     \<and> (\<forall>k. k \<noteq> from_acc_num \<and> k \<noteq> to_acc_num \<longrightarrow>
            map_of (accounts s') k = map_of (accounts s) k)
     \<and> save_data s' = s'
     \<and> (balance fa = Finite x \<and> balance ta = Finite y \<and> amount = Finite m
          \<and> is_double (x - m) \<and> is_double (y + m) \<longrightarrow>
            map_option balance (map_of (accounts s') from_acc_num) = Some (Finite (x - m))
            \<and> map_option balance (map_of (accounts s') to_acc_num) = Some (Finite (y + m))
            \<and> (distinct (map fst (accounts s)) \<longrightarrow> ledger_total s' = ledger_total s))
     \<and> fst (transfer_funds sha256 s from_acc_num to_acc_num amount password) \<noteq> RolledBack"
proof -
  let ?fa' = "fa\<lparr>failed_attempts := 0, balance := fsub (balance fa) amount\<rparr>"
  let ?ta' = "ta\<lparr>balance := fadd (balance ta) amount\<rparr>"
  let ?s1 = "s\<lparr>accounts := AList.update from_acc_num ?fa' (accounts s)\<rparr>"
  have s': "s' = save_data (?s1\<lparr>accounts := AList.update to_acc_num ?ta' (accounts ?s1)\<rparr>)"
    using transfer_success(1) [OF assms] by simp
  have lookups: "map_of (accounts s') from_acc_num = Some ?fa'"
    "map_of (accounts s') to_acc_num = Some ?ta'"
    "\<forall>k. k \<noteq> from_acc_num \<and> k \<noteq> to_acc_num \<longrightarrow> map_of (accounts s') k = map_of (accounts s) k"
    using assms(1) by (simp_all add: s' save_data_def update_conv')
  have saved: "save_data s' = s'"
    by (simp add: s' save_data_def)
  have exact: "map_option balance (map_of (accounts s') from_acc_num) = Some (Finite (x - m))
      \<and> map_option balance (map_of (accounts s') to_acc_num) = Some (Finite (y + m))
      \<and> (distinct (map fst (accounts s)) \<longrightarrow> ledger_total s' = ledger_total s)"
    if h: "balance fa = Finite x" "balance ta = Finite y" "amount = Finite m"
      "is_double (x - m)" "is_double (y + m)"
  proof -
    have bf: "balance ?fa' = Finite (x - m)" and bt: "balance ?ta' = Finite (y + m)"
      using h by (simp_all add: fsub_def is_double_def)
    have total: "ledger_total s' = ledger_total s" if d: "distinct (map fst (accounts s))"
    proof -
      have t1: "ledger_total ?s1 = ledger_total s - x + (x - m)"
        using ledger_total_update [OF d assms(2) h(1) bf] .
      have d1: "distinct (map fst (accounts ?s1))"
        using d by (simp add: distinct_update)
      have l1: "map_of (accounts ?s1) to_acc_num = Some ta"
        using assms(1,3) by (simp add: update_conv')
      have "ledger_total (?s1\<lparr>accounts := AList.update to_acc_num ?ta' (accounts ?s1)\<rparr>)
          = ledger_total ?s1 - y + (y + m)"
        using ledger_total_update [OF d1 l1 h(2) bt] .
      with t1 show ?thesis by (simp add: s' ledger_total_save)
    qed
    from lookups bf bt total show ?thesis by simp
  qed
  from lookups saved exact transfer_not_rolled_back [of sha256 s from_acc_num to_acc_num amount password]
  show ?thesis by blast
qed

end
